theory Spec2Isabelle
  imports Main "HOL-Library.List_Lexorder" "HOL-Library.Char_ord" "HOL-Library.Option_ord"
    "HOL-Library.Multiset"
begin

section \<open>Errors\<close>

text \<open>
  Every failure of the JavaScript code is a value.  \<open>ComponentNotFound\<close> is the rejection
  \<^verbatim>\<open>'The selected text is not a valid React Component !'\<close>, \<open>NoPropertiesFound\<close> is
  \<^verbatim>\<open>Error("Not find any props")\<close>, \<open>TypeError\<close> is the engine's error on reading a
  property of \<^verbatim>\<open>null\<close> or \<^verbatim>\<open>undefined\<close>, and \<open>ENOENT\<close> is what
  \<^verbatim>\<open>fs.statSync\<close> throws on a path that does not exist.
\<close>

datatype error = ComponentNotFound | NoPropertiesFound | TypeError | ENOENT

section \<open>The project command's file scan (bin/cli.js, getProjectJavascriptFiles)\<close>

text \<open>
  The file system as the scan reads it: \<^verbatim>\<open>fs.statSync(p)\<close> either throws (no entry),
  or says that \<open>p\<close> is a plain file, or a directory whose \<^verbatim>\<open>fs.readdirSync(p)\<close> is the
  given list of entry names.
\<close>

datatype fs_entry = File | Directory "string list"

type_synonym filesystem = "string \<Rightarrow> fs_entry option"

definition ends_with :: "string \<Rightarrow> string \<Rightarrow> bool" where
  "ends_with s suf \<longleftrightarrow> length suf \<le> length s \<and> drop (length s - length suf) s = suf"

text \<open>\<^verbatim>\<open>filePath.match(/\.(js|jsx|ts|tsx)$/)\<close>\<close>

definition is_javascript_path :: "string \<Rightarrow> bool" where
  "is_javascript_path p \<longleftrightarrow>
     ends_with p ''.js'' \<or> ends_with p ''.jsx'' \<or> ends_with p ''.ts'' \<or> ends_with p ''.tsx''"

text \<open>
  The loop \<^verbatim>\<open>for (i = 0; i < dirFiles.length; i++) files.push(...rec(filePath))\<close>: one
  recursive call per directory entry, every one of them on \<open>filePath\<close> itself; the entry's
  name is never read.  \<open>None\<close> is a call that does not return.
\<close>

fun scan_entries ::
  "(string \<Rightarrow> (error + string list) option) \<Rightarrow> string \<Rightarrow> string list \<Rightarrow> string list
     \<Rightarrow> (error + string list) option" where
  "scan_entries rec filePath [] files = Some (Inr files)"
| "scan_entries rec filePath (e # es) files =
     (case rec filePath of
        None \<Rightarrow> None
      | Some (Inl err) \<Rightarrow> Some (Inl err)
      | Some (Inr found) \<Rightarrow> scan_entries rec filePath es (files @ found))"

text \<open>
  The recursion is bounded by fuel (the depth of the call stack): with no fuel left the call
  has not returned.
\<close>

fun getProjectJavascriptFiles :: "nat \<Rightarrow> filesystem \<Rightarrow> string \<Rightarrow> (error + string list) option" where
  "getProjectJavascriptFiles 0 fs filePath = None"
| "getProjectJavascriptFiles (Suc fuel) fs filePath =
     (case fs filePath of
        None \<Rightarrow> Some (Inl ENOENT)
      | Some (Directory dirFiles) \<Rightarrow>
          scan_entries (\<lambda>p. getProjectJavascriptFiles fuel fs p) filePath dirFiles []
      | Some File \<Rightarrow> Some (Inr (if is_javascript_path filePath then [filePath] else [])))"

text \<open>A small file system for the concrete checks: one directory with one script in it.\<close>

definition demo_fs :: filesystem where
  "demo_fs p = (if p = ''/app'' then Some (Directory [''a.js''])
                else if p = ''/app/a.js'' then Some File
                else if p = ''/empty'' then Some (Directory [])
                else None)"

section \<open>Syntax trees\<close>

text \<open>
  A node of the parsed tree as the code reads it: its \<^verbatim>\<open>type\<close>, its \<^verbatim>\<open>name\<close> (present
  on identifiers), its \<^verbatim>\<open>range\<close> in the source text, and its child fields in the order in
  which \<^verbatim>\<open>recast.visit\<close> walks them.  An array-valued field (\<^verbatim>\<open>params\<close>,
  \<^verbatim>\<open>properties\<close>, \<^verbatim>\<open>arguments\<close>, \<^verbatim>\<open>elements\<close>, \<^verbatim>\<open>body\<close> of a block) is one entry
  per element under the same field name; a field that is \<^verbatim>\<open>null\<close> has no entry.
\<close>

datatype node =
  Node (ntype: string) (nname: "string option") (range: "nat \<times> nat") (fields: "(string \<times> node) list")

definition field :: "node \<Rightarrow> string \<Rightarrow> node option" where
  "field n f = map_of (fields n) f"

definition field_list :: "node \<Rightarrow> string \<Rightarrow> node list" where
  "field_list n f = map snd (filter (\<lambda>kv. fst kv = f) (fields n))"

text \<open>
  The walk of \<^verbatim>\<open>recast.visit\<close> when every visitor method ends in \<^verbatim>\<open>this.traverse(path)\<close>:
  each node before its children, the children in field order, each with the node of its
  parent path (none at the root).
\<close>

fun preorder :: "node option \<Rightarrow> node \<Rightarrow> (node option \<times> node) list" where
  "preorder parent (Node ty nm rg fs) =
     (parent, Node ty nm rg fs) #
     concat (map (\<lambda>c. preorder (Some (Node ty nm rg fs)) c) (map snd fs))"

section \<open>The component locator (findComponentNode)\<close>

text \<open>
  The three visitor methods.  Each either throws or yields the new value of the variable
  \<^verbatim>\<open>componentNode\<close>: a match assigns it, whatever it held before.
  \<^verbatim>\<open>visitClassDeclaration\<close> reads \<^verbatim>\<open>node.id.name\<close> with no test of \<^verbatim>\<open>node.id\<close>;
  \<^verbatim>\<open>visitArrowFunctionExpression\<close> reads \<^verbatim>\<open>path.parentPath.node.type\<close>, which has no
  node at the root.
\<close>

definition visitClassDeclaration :: "string \<Rightarrow> node \<Rightarrow> node option \<Rightarrow> error + node option" where
  "visitClassDeclaration name n componentNode =
     (case field n ''id'' of
        None \<Rightarrow> Inl TypeError
      | Some i \<Rightarrow> Inr (if nname i = Some name then Some n else componentNode))"

definition visitFunctionDeclaration :: "string \<Rightarrow> node \<Rightarrow> node option \<Rightarrow> error + node option" where
  "visitFunctionDeclaration name n componentNode =
     (case field n ''id'' of
        None \<Rightarrow> Inr componentNode
      | Some i \<Rightarrow>
          Inr (if ntype i = ''Identifier'' \<and> nname i = Some name then Some n else componentNode))"

definition visitArrowFunctionExpression ::
  "string \<Rightarrow> node option \<Rightarrow> node \<Rightarrow> node option \<Rightarrow> error + node option" where
  "visitArrowFunctionExpression name parent n componentNode =
     (case parent of
        None \<Rightarrow> Inl TypeError
      | Some parentNode \<Rightarrow>
          (if ntype parentNode = ''VariableDeclarator'' then
             (case field parentNode ''id'' of
                None \<Rightarrow> Inr componentNode
              | Some i \<Rightarrow>
                  Inr (if ntype i = ''Identifier'' \<and> nname i = Some name then Some n
                       else componentNode))
           else Inr componentNode))"

definition visit_component :: "string \<Rightarrow> node option \<times> node \<Rightarrow> node option \<Rightarrow> error + node option" where
  "visit_component name pn componentNode =
     (if ntype (snd pn) = ''ClassDeclaration'' then visitClassDeclaration name (snd pn) componentNode
      else if ntype (snd pn) = ''FunctionDeclaration'' then
        visitFunctionDeclaration name (snd pn) componentNode
      else if ntype (snd pn) = ''ArrowFunctionExpression'' then
        visitArrowFunctionExpression name (fst pn) (snd pn) componentNode
      else Inr componentNode)"

fun visit_all :: "string \<Rightarrow> (node option \<times> node) list \<Rightarrow> node option \<Rightarrow> error + node option" where
  "visit_all name [] componentNode = Inr componentNode"
| "visit_all name (pn # rest) componentNode =
     (case visit_component name pn componentNode of
        Inl e \<Rightarrow> Inl e
      | Inr componentNode' \<Rightarrow> visit_all name rest componentNode')"

definition findComponentNode :: "node \<Rightarrow> string \<Rightarrow> error + node" where
  "findComponentNode ast name =
     (case visit_all name (preorder None ast) None of
        Inl e \<Rightarrow> Inl e
      | Inr None \<Rightarrow> Inl ComponentNotFound
      | Inr (Some componentNode) \<Rightarrow> Inr componentNode)"

text \<open>What the visitors throw on, and what they take for the component.\<close>

definition visitor_throws :: "node option \<times> node \<Rightarrow> bool" where
  "visitor_throws pn \<longleftrightarrow>
     (ntype (snd pn) = ''ClassDeclaration'' \<and> field (snd pn) ''id'' = None) \<or>
     (ntype (snd pn) = ''ArrowFunctionExpression'' \<and> fst pn = None)"

definition has_identifier :: "node \<Rightarrow> string \<Rightarrow> bool" where
  "has_identifier n name \<longleftrightarrow>
     (case field n ''id'' of
        None \<Rightarrow> False
      | Some i \<Rightarrow> ntype i = ''Identifier'' \<and> nname i = Some name)"

definition is_component :: "string \<Rightarrow> node option \<times> node \<Rightarrow> bool" where
  "is_component name pn \<longleftrightarrow>
     (ntype (snd pn) = ''ClassDeclaration'' \<and>
        (case field (snd pn) ''id'' of None \<Rightarrow> False | Some i \<Rightarrow> nname i = Some name)) \<or>
     (ntype (snd pn) = ''FunctionDeclaration'' \<and> has_identifier (snd pn) name) \<or>
     (ntype (snd pn) = ''ArrowFunctionExpression'' \<and>
        (case fst pn of
           None \<Rightarrow> False
         | Some parentNode \<Rightarrow> ntype parentNode = ''VariableDeclarator'' \<and> has_identifier parentNode name))"

definition candidates :: "node \<Rightarrow> string \<Rightarrow> node list" where
  "candidates ast name = map snd (filter (is_component name) (preorder None ast))"

text \<open>
  \<^verbatim>\<open>function Foo(props) { function Foo() {} }\<close>: a component whose body declares an
  inner function of the same name.
\<close>

definition inner_Foo :: node where
  "inner_Foo =
     Node ''FunctionDeclaration'' None (22, 39)
       [(''id'', Node ''Identifier'' (Some ''Foo'') (31, 34) []),
        (''body'', Node ''BlockStatement'' None (37, 39) [])]"

definition outer_Foo :: node where
  "outer_Foo =
     Node ''FunctionDeclaration'' None (0, 41)
       [(''id'', Node ''Identifier'' (Some ''Foo'') (9, 12) []),
        (''params'', Node ''Identifier'' (Some ''props'') (13, 18) []),
        (''body'', Node ''BlockStatement'' None (20, 41) [(''body'', inner_Foo)])]"

definition shadowed_program :: node where
  "shadowed_program = Node ''Program'' None (0, 41) [(''body'', outer_Foo)]"

section \<open>Property records\<close>

text \<open>
  Modelled from the spec: the bean class \<^verbatim>\<open>beans/PropTypes\<close> is not among the sources.
  Its fields are the ones the code reads and writes (\<^verbatim>\<open>name\<close>, \<^verbatim>\<open>type\<close>,
  \<^verbatim>\<open>isRequired\<close>, \<^verbatim>\<open>childTypes\<close>, \<^verbatim>\<open>ast\<close>, \<^verbatim>\<open>id\<close>, \<^verbatim>\<open>defaultValue\<close>), which the
  spec calls name, kind, required, children, literalSet, bindingId and defaultValue.  A
  field that JavaScript leaves \<^verbatim>\<open>undefined\<close> is \<open>None\<close>; \<^verbatim>\<open>childTypes\<close> may hold
  \<^verbatim>\<open>null\<close> entries, because the code assigns it lists that do.
\<close>

datatype PropTypes =
  PropTypes (pt_name: "string option") (pt_type: "string option") (pt_isRequired: bool)
    (pt_childTypes: "PropTypes option list") (pt_ast: "node option") (pt_id: "string option")
    (pt_defaultValue: "string option")

text \<open>
  Modelled from the spec: \<^verbatim>\<open>new PropTypes(name)\<close>, a record of kind \<^verbatim>\<open>any\<close>, not
  required, with no children, no binding identifier and no default value.
\<close>

definition new_PropTypes :: "string option \<Rightarrow> PropTypes" where
  "new_PropTypes name = PropTypes name (Some ''any'') False [] None None None"

section \<open>Writing the declaration back (bin/cli.js)\<close>

text \<open>
  The source text is the list of its characters, indexed as the parser's ranges are.
  \<^verbatim>\<open>document.slice(0, a)\<close> is \<open>take a\<close> and \<^verbatim>\<open>document.slice(b, document.length)\<close> is
  \<open>drop b\<close>, also beyond the end of the text.
\<close>

definition replaceCode :: "string \<Rightarrow> nat \<times> nat \<Rightarrow> string \<Rightarrow> string" where
  "replaceCode document rg code = take (fst rg) document @ code @ drop (snd rg) document"

definition insertCode :: "string \<Rightarrow> nat \<Rightarrow> string \<Rightarrow> string" where
  "insertCode document position code = take position document @ code @ drop position document"

text \<open>
  The code style in force once the nodes are known: an existing declaration fixes it by its
  own form, a function declaration or arrow function without one forces \<^verbatim>\<open>default\<close>, and a
  class without one keeps what the configuration says (nothing, when there is no setting).
\<close>

definition effective_codeStyle :: "node \<Rightarrow> node option \<Rightarrow> string option \<Rightarrow> string option" where
  "effective_codeStyle componentNode propTypesNode codeStyle =
     (case propTypesNode of
        Some p \<Rightarrow>
          (if ntype p = ''AssignmentExpression'' then Some ''default''
           else if ntype p = ''ClassProperty'' then Some ''class''
           else codeStyle)
      | None \<Rightarrow>
          (if ntype componentNode = ''FunctionDeclaration'' \<or>
              ntype componentNode = ''ArrowFunctionExpression''
           then Some ''default'' else codeStyle))"

text \<open>
  The callback of \<^verbatim>\<open>generatePropTypes\<close> that receives the merged records.  The renderer
  \<^verbatim>\<open>codeBuilder.buildPropTypes\<close> is a parameter.  The result is the new text of the file,
  or \<open>None\<close> on the path that writes nothing (class style on a component with no body).
\<close>

definition generatePropTypes_write ::
  "(PropTypes option list \<Rightarrow> string option \<Rightarrow> string) \<Rightarrow> string \<Rightarrow> node \<Rightarrow> node option
     \<Rightarrow> string option \<Rightarrow> PropTypes option list \<Rightarrow> error + string option" where
  "generatePropTypes_write buildPropTypes document componentNode propTypesNode codeStyle propTypes =
     (if length propTypes = 0 then Inl NoPropertiesFound
      else
        let style = effective_codeStyle componentNode propTypesNode codeStyle;
            code = buildPropTypes propTypes style
        in (case propTypesNode of
              Some p \<Rightarrow> Inr (Some (replaceCode document (range p) code))
            | None \<Rightarrow>
                (if style = Some ''class'' then
                   (case field componentNode ''body'' of
                      Some body \<Rightarrow>
                        Inr (Some (insertCode document (fst (range body) + 1)
                                     ([CHR 0x0A] @ ''  '' @ code @ [CHR 0x0A])))
                    | None \<Rightarrow> Inr None)
                 else
                   Inr (Some (insertCode document (snd (range componentNode))
                                ([CHR 0x0A, CHR 0x0A] @ code))))))"

text \<open>
  \<^verbatim>\<open>class A extends C {}\<close>, a class component with no declaration of its own, and a
  renderer that always writes \<^verbatim>\<open>P\<close>.
\<close>

definition class_A_document :: string where
  "class_A_document = ''class A extends C {}''"

definition class_A :: node where
  "class_A =
     Node ''ClassDeclaration'' None (0, 20)
       [(''id'', Node ''Identifier'' (Some ''A'') (6, 7) []),
        (''body'', Node ''ClassBody'' None (18, 20) []),
        (''superClass'', Node ''Identifier'' (Some ''C'') (16, 17) [])]"

definition render_P :: "PropTypes option list \<Rightarrow> string option \<Rightarrow> string" where
  "render_P propTypes style = ''P''"

text \<open>Assignments to single fields of a record.\<close>

definition set_type :: "string option \<Rightarrow> PropTypes \<Rightarrow> PropTypes" where
  "set_type t p =
     PropTypes (pt_name p) t (pt_isRequired p) (pt_childTypes p) (pt_ast p) (pt_id p) (pt_defaultValue p)"

definition set_isRequired :: "bool \<Rightarrow> PropTypes \<Rightarrow> PropTypes" where
  "set_isRequired r p =
     PropTypes (pt_name p) (pt_type p) r (pt_childTypes p) (pt_ast p) (pt_id p) (pt_defaultValue p)"

definition set_childTypes :: "PropTypes option list \<Rightarrow> PropTypes \<Rightarrow> PropTypes" where
  "set_childTypes cs p =
     PropTypes (pt_name p) (pt_type p) (pt_isRequired p) cs (pt_ast p) (pt_id p) (pt_defaultValue p)"

definition set_ast :: "node option \<Rightarrow> PropTypes \<Rightarrow> PropTypes" where
  "set_ast a p =
     PropTypes (pt_name p) (pt_type p) (pt_isRequired p) (pt_childTypes p) a (pt_id p) (pt_defaultValue p)"

definition set_id :: "string option \<Rightarrow> PropTypes \<Rightarrow> PropTypes" where
  "set_id i p =
     PropTypes (pt_name p) (pt_type p) (pt_isRequired p) (pt_childTypes p) (pt_ast p) i (pt_defaultValue p)"

definition set_defaultValue :: "string option \<Rightarrow> PropTypes \<Rightarrow> PropTypes" where
  "set_defaultValue d p =
     PropTypes (pt_name p) (pt_type p) (pt_isRequired p) (pt_childTypes p) (pt_ast p) (pt_id p) d"

section \<open>The interpreter of an existing declaration (findUpdateSpecialPropTypes)\<close>

text \<open>A child node is smaller than its parent: the recursions over the tree end.\<close>

lemma size_fields_aux:
  "(k, c) \<in> set fs \<Longrightarrow> size c < Suc (size_list (size_prod (\<lambda>_. 0) size) fs)"
  by (induction fs) auto

lemma size_fields: "(k, c) \<in> set (fields n) \<Longrightarrow> size c < size n"
  by (cases n) (auto dest: size_fields_aux)

lemma size_field: "field n f = Some c \<Longrightarrow> size c < size n"
  unfolding field_def by (auto dest!: map_of_SomeD size_fields)

lemma size_field_list: "c \<in> set (field_list n f) \<Longrightarrow> size c < size n"
  unfolding field_list_def by (auto dest: size_fields)

text \<open>\<^verbatim>\<open>node.arguments[0]\<close>\<close>

definition first_argument :: "node \<Rightarrow> node option" where
  "first_argument n = (case field_list n ''arguments'' of [] \<Rightarrow> None | a # _ \<Rightarrow> Some a)"

lemma size_first_argument: "first_argument n = Some c \<Longrightarrow> size c < size n"
  unfolding first_argument_def
  by (auto split: list.splits intro: size_field_list [of c n "''arguments''"])

text \<open>
  Running a function that may throw over a list, in order; the first error ends the loop.
\<close>

fun mapM :: "('a \<Rightarrow> error + 'b) \<Rightarrow> 'a list \<Rightarrow> error + 'b list" where
  "mapM f [] = Inr []"
| "mapM f (x # xs) =
     (case f x of
        Inl e \<Rightarrow> Inl e
      | Inr y \<Rightarrow> (case mapM f xs of Inl e \<Rightarrow> Inl e | Inr ys \<Rightarrow> Inr (y # ys)))"

lemma mapM_cong [fundef_cong]:
  "xs = ys \<Longrightarrow> (\<And>x. x \<in> set ys \<Longrightarrow> f x = g x) \<Longrightarrow> mapM f xs = mapM g ys"
  by (induction ys arbitrary: xs) (auto split: sum.splits)

text \<open>
  The first half of \<^verbatim>\<open>findUpdateSpecialPropTypes\<close>, up to the comment on special types: it
  returns \<^verbatim>\<open>null\<close> (here \<open>Inr None\<close>) when the node is neither a call nor a member
  expression, and otherwise the record so far with \<^verbatim>\<open>callee\<close> and \<^verbatim>\<open>calleeParams\<close>.
\<close>

definition classify_typeNode ::
  "node \<Rightarrow> PropTypes \<Rightarrow> error + (PropTypes \<times> node option \<times> node option) option" where
  "classify_typeNode typeNode props =
     (if ntype typeNode = ''CallExpression'' then
        Inr (Some (props, field typeNode ''callee'', first_argument typeNode))
      else if ntype typeNode = ''MemberExpression'' then
        (case field typeNode ''object'' of
           None \<Rightarrow> Inl TypeError
         | Some object \<Rightarrow>
             (case
                (if ntype object = ''CallExpression'' then
                   Inr (props, field object ''callee'', first_argument object)
                 else if ntype object = ''MemberExpression'' then
                   (case field object ''property'' of
                      None \<Rightarrow> Inl TypeError
                    | Some oprop \<Rightarrow>
                        Inr (if nname oprop \<noteq> Some ''any'' then set_type (nname oprop) props
                             else props, None, None))
                 else if ntype object = ''Identifier'' then
                   (case field typeNode ''property'' of
                      None \<Rightarrow> Inl TypeError
                    | Some property \<Rightarrow>
                        Inr (if nname property \<noteq> Some ''any'' then set_type (nname property) props
                             else props, None, None))
                 else Inr (props, None, None))
              of
                Inl e \<Rightarrow> Inl e
              | Inr (props', callee, calleeParams) \<Rightarrow>
                  (case field typeNode ''property'' of
                     None \<Rightarrow> Inl TypeError
                   | Some property \<Rightarrow>
                       Inr (Some
                         (if ntype property = ''Identifier'' \<and> nname property = Some ''isRequired''
                          then set_isRequired True props' else props',
                          callee, calleeParams)))))
      else Inr None)"

lemma size_classify_typeNode:
  "classify_typeNode typeNode props = Inr (Some (props', callee, Some calleeParams)) \<Longrightarrow>
   size calleeParams < size typeNode"
  unfolding classify_typeNode_def
  by (auto split: if_splits option.splits sum.splits
      dest!: size_first_argument dest: size_field)

text \<open>The type named by the callee: \<^verbatim>\<open>PropTypes.shape(...)\<close> gives \<^verbatim>\<open>shape\<close>.\<close>

definition callee_type :: "node \<Rightarrow> PropTypes \<Rightarrow> error + PropTypes" where
  "callee_type callee props =
     (if ntype callee = ''MemberExpression'' then
        (case field callee ''property'' of
           None \<Rightarrow> Inl TypeError
         | Some property \<Rightarrow>
             Inr (if ntype property = ''Identifier'' \<and> nname property \<noteq> Some ''any''
                  then set_type (nname property) props else props))
      else Inr props)"

lemma size_classify_element:
  "classify_typeNode typeNode props = Inr (Some (props', callee, Some calleeParams)) \<Longrightarrow>
   item \<in> set (field_list calleeParams f) \<Longrightarrow> size item < size typeNode"
  using size_classify_typeNode [of typeNode props props' callee calleeParams]
    size_field_list [of item calleeParams f]
  by simp

lemma size_property_value:
  "property \<in> set (field_list obj f) \<Longrightarrow> field property g = Some v \<Longrightarrow> size v < size obj"
  using size_field_list [of property obj f] size_field [of property g v]
  by simp

function findUpdateSpecialPropTypes :: "node \<Rightarrow> string option \<Rightarrow> error + PropTypes option"
  and findPropTypesInObjectNode :: "node option \<Rightarrow> error + PropTypes option list" where
  "findUpdateSpecialPropTypes typeNode name =
     (case classify_typeNode typeNode (new_PropTypes name) of
        Inl e \<Rightarrow> Inl e
      | Inr None \<Rightarrow> Inr None
      | Inr (Some (props, None, calleeParams)) \<Rightarrow> Inr (Some props)
      | Inr (Some (props, Some callee, None)) \<Rightarrow> Inr (Some props)
      | Inr (Some (props, Some callee, Some calleeParams)) \<Rightarrow>
          (case callee_type callee props of
             Inl e \<Rightarrow> Inl e
           | Inr props1 \<Rightarrow>
               (if ntype calleeParams = ''ObjectExpression'' then
                  (case findPropTypesInObjectNode (Some calleeParams) of
                     Inl e \<Rightarrow> Inl e
                   | Inr childTypes \<Rightarrow> Inr (Some (set_childTypes childTypes props1)))
                else if ntype calleeParams = ''ArrayExpression'' then
                  (if pt_type props1 = Some ''oneOf'' then
                     Inr (Some (set_ast (Some calleeParams) props1))
                   else
                     (case mapM (\<lambda>item. findUpdateSpecialPropTypes item None)
                             (field_list calleeParams ''elements'') of
                        Inl e \<Rightarrow> Inl e
                      | Inr items \<Rightarrow>
                          Inr (Some (set_childTypes (filter (\<lambda>item. item \<noteq> None) items) props1))))
                else if ntype calleeParams = ''MemberExpression'' then
                  (case findUpdateSpecialPropTypes calleeParams None of
                     Inl e \<Rightarrow> Inl e
                   | Inr None \<Rightarrow> Inr (Some props1)
                   | Inr (Some childType) \<Rightarrow> Inr (Some (set_childTypes [Some childType] props1)))
                else Inr (Some props1))))"
| "findPropTypesInObjectNode objectNode =
     (case objectNode of
        None \<Rightarrow> Inr []
      | Some obj \<Rightarrow>
          (if ntype obj = ''ObjectExpression'' then
             mapM (\<lambda>property.
                     (case field property ''key'' of
                        None \<Rightarrow> Inl TypeError
                      | Some key \<Rightarrow>
                          (case field property ''value'' of
                             None \<Rightarrow> Inl TypeError
                           | Some v \<Rightarrow> findUpdateSpecialPropTypes v (nname key))))
                  (field_list obj ''properties'')
           else Inr []))"
  by pat_completeness auto
termination
  apply (relation "measure (\<lambda>x. case x of Inl (n, _) \<Rightarrow> 2 * size n
                                    | Inr None \<Rightarrow> 0 | Inr (Some n) \<Rightarrow> 2 * size n + 1)")
      apply simp
     apply (auto dest: size_classify_typeNode size_classify_element size_property_value)
  done

text \<open>Builders for the concrete trees of the checks below (ranges play no part there).\<close>

definition identifier_node :: "string \<Rightarrow> node" where
  "identifier_node s = Node ''Identifier'' (Some s) (0, 0) []"

definition literal_node :: node where
  "literal_node = Node ''Literal'' None (0, 0) []"

definition member_node :: "node \<Rightarrow> string \<Rightarrow> node" where
  "member_node ob p = Node ''MemberExpression'' None (0, 0) [(''object'', ob), (''property'', identifier_node p)]"

definition call_node :: "node \<Rightarrow> node list \<Rightarrow> node" where
  "call_node c as = Node ''CallExpression'' None (0, 0) ((''callee'', c) # map (\<lambda>a. (''arguments'', a)) as)"

definition array_expression :: "node list \<Rightarrow> node" where
  "array_expression es = Node ''ArrayExpression'' None (0, 0) (map (\<lambda>e. (''elements'', e)) es)"

definition object_expression :: "node list \<Rightarrow> node" where
  "object_expression ps = Node ''ObjectExpression'' None (0, 0) (map (\<lambda>p. (''properties'', p)) ps)"

definition property_node :: "string \<Rightarrow> node \<Rightarrow> node" where
  "property_node k v = Node ''Property'' None (0, 0) [(''key'', identifier_node k), (''value'', v)]"

text \<open>
  \<^verbatim>\<open>{ a: PropTypes.string, b: check, c: PropTypes.oneOfType([PropTypes.number, 5]) }\<close>:
  \<^verbatim>\<open>b\<close> holds a custom validator, named by a plain identifier.
\<close>

definition validator_declaration :: node where
  "validator_declaration =
     object_expression
       [property_node ''a'' (member_node (identifier_node ''PropTypes'') ''string''),
        property_node ''b'' (identifier_node ''check''),
        property_node ''c'' (call_node (member_node (identifier_node ''PropTypes'') ''oneOfType'')
                          [array_expression [member_node (identifier_node ''PropTypes'') ''number'', literal_node]])]"

section \<open>Defaults in a destructuring pattern (findPropTypesInObjectPattern)\<close>

text \<open>
  One round of the loop over \<^verbatim>\<open>ast.properties\<close>: the record pushed for the entry, if any.
  The helper \<^verbatim>\<open>propTypesHelper.updatePropTypeByNode\<close> and the printer
  \<^verbatim>\<open>recast.prettyPrint(...).code\<close> are parameters.
\<close>

definition pattern_entry ::
  "(node \<Rightarrow> PropTypes \<Rightarrow> PropTypes) \<Rightarrow> (node \<Rightarrow> string) \<Rightarrow> node \<Rightarrow> PropTypes option" where
  "pattern_entry updatePropTypeByNode prettyPrint entry =
     (case (field entry ''value'', field entry ''key'') of
        (Some property, Some key) \<Rightarrow>
          (let props = new_PropTypes (nname key) in
           if ntype property = ''AssignmentPattern'' then
             (case (field property ''left'', field property ''right'') of
                (Some left, Some right) \<Rightarrow>
                  (if ntype left = ''Identifier'' then
                     (let props1 = updatePropTypeByNode right props;
                          props2 = (if pt_type props1 \<noteq> Some ''any''
                                    then set_defaultValue (Some (prettyPrint right)) props1
                                    else props1)
                      in Some (set_id (nname left) props2))
                   else None)
              | _ \<Rightarrow> None)
           else if ntype property = ''Identifier'' then Some (set_id (nname property) props)
           else None)
      | _ \<Rightarrow> None)"

definition findPropTypesInObjectPattern ::
  "(node \<Rightarrow> PropTypes \<Rightarrow> PropTypes) \<Rightarrow> (node \<Rightarrow> string) \<Rightarrow> node \<Rightarrow> PropTypes list" where
  "findPropTypesInObjectPattern updatePropTypeByNode prettyPrint ast =
     List.map_filter (pattern_entry updatePropTypeByNode prettyPrint) (field_list ast ''properties'')"

text \<open>
  Modelled from the spec: \<^verbatim>\<open>propTypesHelper.updatePropTypeByNode\<close> is not among the
  sources.  The spec says that the kind is inferred structurally from the expression, that
  the literal \<^verbatim>\<open>1\<close> gives a kind other than \<^verbatim>\<open>any\<close>, and that what cannot be
  inferred stays \<^verbatim>\<open>any\<close>.  The node types are the parser's: a numeric literal is a
  \<^verbatim>\<open>NumericLiteral\<close>.
\<close>

definition updatePropTypeByNode :: "node \<Rightarrow> PropTypes \<Rightarrow> PropTypes" where
  "updatePropTypeByNode n props =
     (if ntype n = ''NumericLiteral'' then set_type (Some ''number'') props
      else if ntype n = ''StringLiteral'' then set_type (Some ''string'') props
      else if ntype n = ''BooleanLiteral'' then set_type (Some ''bool'') props
      else if ntype n = ''ArrowFunctionExpression'' \<or> ntype n = ''FunctionExpression''
        then set_type (Some ''func'') props
      else if ntype n = ''ArrayExpression'' then set_type (Some ''array'') props
      else if ntype n = ''ObjectExpression'' then set_type (Some ''object'') props
      else props)"

text \<open>A printer for the checks: the text of a node is its range of the source.\<close>

definition source_of :: "string \<Rightarrow> node \<Rightarrow> string" where
  "source_of document n = take (snd (range n) - fst (range n)) (drop (fst (range n)) document)"

text \<open>
  The parameter pattern of \<^verbatim>\<open>function Foo({ a, b = 1, c = d }) {}\<close>, with the ranges of
  that text.
\<close>

definition Foo_document :: string where
  "Foo_document = ''function Foo({ a, b = 1, c = d }) {}''"

definition pattern_a :: node where
  "pattern_a =
     Node ''Property'' None (15, 16)
       [(''key'', Node ''Identifier'' (Some ''a'') (15, 16) []),
        (''value'', Node ''Identifier'' (Some ''a'') (15, 16) [])]"

definition pattern_b :: node where
  "pattern_b =
     Node ''Property'' None (18, 23)
       [(''key'', Node ''Identifier'' (Some ''b'') (18, 19) []),
        (''value'', Node ''AssignmentPattern'' None (18, 23)
           [(''left'', Node ''Identifier'' (Some ''b'') (18, 19) []),
            (''right'', Node ''NumericLiteral'' None (22, 23) [])])]"

definition pattern_c :: node where
  "pattern_c =
     Node ''Property'' None (25, 30)
       [(''key'', Node ''Identifier'' (Some ''c'') (25, 26) []),
        (''value'', Node ''AssignmentPattern'' None (25, 30)
           [(''left'', Node ''Identifier'' (Some ''c'') (25, 26) []),
            (''right'', Node ''Identifier'' (Some ''d'') (29, 30) [])])]"

definition Foo_pattern :: node where
  "Foo_pattern =
     Node ''ObjectPattern'' None (13, 32)
       [(''properties'', pattern_a), (''properties'', pattern_b), (''properties'', pattern_c)]"

section \<open>The completion pass (findAndCompletePropTypes)\<close>

text \<open>
  \<^verbatim>\<open>newPropTypes.find(item => ...)\<close> followed by an assignment to fields of the record
  found: the first record that satisfies the test is replaced by its update.
\<close>

fun update_first :: "('a \<Rightarrow> bool) \<Rightarrow> ('a \<Rightarrow> 'a) \<Rightarrow> 'a list \<Rightarrow> 'a list" where
  "update_first P f [] = []"
| "update_first P f (x # xs) = (if P x then f x # xs else x # update_first P f xs)"

text \<open>JavaScript's truth of a string that may be \<^verbatim>\<open>undefined\<close>: present and not empty.\<close>

definition truthy :: "string option \<Rightarrow> bool" where
  "truthy s \<longleftrightarrow> (case s of None \<Rightarrow> False | Some v \<Rightarrow> v \<noteq> [])"

text \<open>
  The identifiers to look for: the binding identifier of every record that has one and
  whose type is \<^verbatim>\<open>any\<close> or \<^verbatim>\<open>shape\<close>.
\<close>

definition completion_ids :: "PropTypes list \<Rightarrow> string list" where
  "completion_ids propTypes =
     map (\<lambda>item. the (pt_id item))
       (filter (\<lambda>item. pt_type item = Some ''any'' \<or> pt_type item = Some ''shape'')
          (filter (\<lambda>item. truthy (pt_id item)) propTypes))"

text \<open>
  The two visitor methods on one node of the walk.  The helper
  \<^verbatim>\<open>propTypesHelper.getPropTypeByMemberExpression\<close>, which answers with a name and a record
  (either may be missing), and \<^verbatim>\<open>propTypesHelper.customMergePropTypes\<close> are parameters;
  \<open>nested\<close> is the pass itself, called on the same tree with the one record the helper
  gave.  \<open>None\<close> is a call that does not return.
\<close>

definition complete_node ::
  "(string list \<Rightarrow> node option \<times> node \<Rightarrow> string option \<times> PropTypes option)
     \<Rightarrow> (PropTypes option list \<Rightarrow> PropTypes option list \<Rightarrow> PropTypes option list)
     \<Rightarrow> (PropTypes \<Rightarrow> (error + PropTypes list) option)
     \<Rightarrow> string list \<Rightarrow> node option \<times> node \<Rightarrow> PropTypes list \<Rightarrow> (error + PropTypes list) option" where
  "complete_node getPropTypeByMemberExpression customMergePropTypes nested ids path newPropTypes =
     (if ntype (snd path) = ''CallExpression'' then
        (case field (snd path) ''callee'' of
           None \<Rightarrow> Some (Inl TypeError)
         | Some callee \<Rightarrow>
             (if ntype callee = ''Identifier'' \<and> (case nname callee of None \<Rightarrow> False | Some c \<Rightarrow> c \<in> set ids)
              then Some (Inr (update_first (\<lambda>item. pt_id item = nname callee)
                                (set_type (Some ''func'')) newPropTypes))
              else Some (Inr newPropTypes)))
      else if ntype (snd path) = ''MemberExpression'' then
        (case getPropTypeByMemberExpression ids path of
           (name, Some propType) \<Rightarrow>
             (if truthy name then
                (case List.find (\<lambda>item. pt_id item = name) newPropTypes of
                   None \<Rightarrow> Some (Inr newPropTypes)
                 | Some updatePropType \<Rightarrow>
                     (case nested propType of
                        None \<Rightarrow> None
                      | Some (Inl e) \<Rightarrow> Some (Inl e)
                      | Some (Inr completed) \<Rightarrow>
                          Some (Inr (update_first (\<lambda>item. pt_id item = name)
                                       (\<lambda>item. set_childTypes
                                          (customMergePropTypes (pt_childTypes item) (map Some completed))
                                          (set_type (Some ''shape'') item))
                                       newPropTypes))))
              else Some (Inr newPropTypes))
         | (name, None) \<Rightarrow> Some (Inr newPropTypes))
      else Some (Inr newPropTypes))"

fun complete_walk ::
  "(node option \<times> node \<Rightarrow> PropTypes list \<Rightarrow> (error + PropTypes list) option)
     \<Rightarrow> (node option \<times> node) list \<Rightarrow> PropTypes list \<Rightarrow> (error + PropTypes list) option" where
  "complete_walk visit [] newPropTypes = Some (Inr newPropTypes)"
| "complete_walk visit (path # rest) newPropTypes =
     (case visit path newPropTypes of
        None \<Rightarrow> None
      | Some (Inl e) \<Rightarrow> Some (Inl e)
      | Some (Inr newPropTypes') \<Rightarrow> complete_walk visit rest newPropTypes')"

text \<open>
  The pass.  Its recursion (on the same tree, with the record of a nested member access) is
  bounded by fuel, the depth of the call stack.
\<close>

fun findAndCompletePropTypes ::
  "(string list \<Rightarrow> node option \<times> node \<Rightarrow> string option \<times> PropTypes option)
     \<Rightarrow> (PropTypes option list \<Rightarrow> PropTypes option list \<Rightarrow> PropTypes option list)
     \<Rightarrow> nat \<Rightarrow> node option \<Rightarrow> PropTypes list \<Rightarrow> (error + PropTypes list) option" where
  "findAndCompletePropTypes helper merge 0 ast propTypes = None"
| "findAndCompletePropTypes helper merge (Suc fuel) ast propTypes =
     (let ids = completion_ids propTypes in
      if length ids = 0 then Some (Inr propTypes)
      else
        (case ast of
           None \<Rightarrow> Some (Inr propTypes)
         | Some tree \<Rightarrow>
             complete_walk
               (complete_node helper merge
                  (\<lambda>propType. findAndCompletePropTypes helper merge fuel ast [propType]) ids)
               (preorder None tree) propTypes))"

text \<open>
  The block \<^verbatim>\<open>{ var { x: a = '', y: a } = props; a(); }\<close> with the ranges of that text,
  and the two records of its pattern: both bound to \<^verbatim>\<open>a\<close>, the first already a string.
\<close>

definition duplicate_binding_pattern :: node where
  "duplicate_binding_pattern =
     Node ''ObjectPattern'' None (6, 25)
       [(''properties'', Node ''Property'' None (8, 17)
           [(''key'', Node ''Identifier'' (Some ''x'') (8, 9) []),
            (''value'', Node ''AssignmentPattern'' None (11, 17)
               [(''left'', Node ''Identifier'' (Some ''a'') (11, 12) []),
                (''right'', Node ''StringLiteral'' None (15, 17) [])])]),
        (''properties'', Node ''Property'' None (19, 23)
           [(''key'', Node ''Identifier'' (Some ''y'') (19, 20) []),
            (''value'', Node ''Identifier'' (Some ''a'') (22, 23) [])])]"

definition call_a_block :: node where
  "call_a_block =
     Node ''BlockStatement'' None (0, 41)
       [(''body'', Node ''VariableDeclaration'' None (2, 34)
           [(''declarations'', Node ''VariableDeclarator'' None (6, 33)
               [(''id'', duplicate_binding_pattern),
                (''init'', Node ''Identifier'' (Some ''props'') (28, 33) [])])]),
        (''body'', Node ''ExpressionStatement'' None (35, 39)
           [(''expression'', Node ''CallExpression'' None (35, 38)
               [(''callee'', Node ''Identifier'' (Some ''a'') (35, 36) [])])])]"

definition duplicate_binding_document :: string where
  "duplicate_binding_document =
     ''{ var { x: a = '' @ [CHR 0x27, CHR 0x27] @ '', y: a } = props; a(); }''"

definition record_x :: PropTypes where
  "record_x = PropTypes (Some ''x'') (Some ''string'') False [] None (Some ''a'') (Some [CHR 0x27, CHR 0x27])"

definition record_y :: PropTypes where
  "record_y = PropTypes (Some ''y'') (Some ''any'') False [] None (Some ''a'') None"

section \<open>Merging and sorting the records (findPropTypes)\<close>

text \<open>
  Modelled from the spec: \<^verbatim>\<open>propTypesHelper.customMergePropTypes\<close> is not among the
  sources.  The spec's merger makes one list keyed by name, in which no name is emitted
  twice; on a name that both sides have, the side of higher priority wins on the
  conflicting fields, a kind of \<^verbatim>\<open>any\<close> does not override a kind already resolved, the
  default value is kept from the lower side when the higher side supplied none, and the
  children lists are united.  Here the second argument is the side of higher priority:
  \<^verbatim>\<open>findPropTypes\<close> merges the explicit declaration last and calls it the highest.  A
  \<^verbatim>\<open>null\<close> entry has no name; it matches nothing and is carried along.
\<close>

fun merge_record ::
  "(PropTypes \<Rightarrow> PropTypes \<Rightarrow> PropTypes) \<Rightarrow> PropTypes option list \<Rightarrow> PropTypes option
     \<Rightarrow> PropTypes option list" where
  "merge_record combine [] c = [c]"
| "merge_record combine (t # target) c =
     (case (t, c) of
        (Some a, Some b) \<Rightarrow>
          (if pt_name a = pt_name b then Some (combine a b) # target
           else t # merge_record combine target c)
      | _ \<Rightarrow> t # merge_record combine target c)"

lemma merge_record_cong [fundef_cong]:
  "target = target' \<Longrightarrow> c = c' \<Longrightarrow> (\<And>a b. c' = Some b \<Longrightarrow> f a b = g a b) \<Longrightarrow>
   merge_record f target c = merge_record g target' c'"
  by (induction target arbitrary: target') (auto split: option.splits)

lemma size_child: "Some b \<in> set (pt_childTypes p) \<Longrightarrow> size b < size p"
  by (cases p)
    (auto simp: less_Suc_eq_le
      dest!: size_list_estimation' [where f = "size_option size" and y = "size b"])

function merge_fields :: "PropTypes \<Rightarrow> PropTypes \<Rightarrow> PropTypes" where
  "merge_fields a b =
     PropTypes (pt_name b)
       (if pt_type b = Some ''any'' then pt_type a else pt_type b)
       (pt_isRequired b)
       (foldl (merge_record (\<lambda>x y. merge_fields x y)) (pt_childTypes a) (pt_childTypes b))
       (case pt_ast b of None \<Rightarrow> pt_ast a | Some n \<Rightarrow> Some n)
       (case pt_id b of None \<Rightarrow> pt_id a | Some i \<Rightarrow> Some i)
       (case pt_defaultValue b of None \<Rightarrow> pt_defaultValue a | Some d \<Rightarrow> Some d)"
  by pat_completeness auto
termination
  by (relation "measure (\<lambda>(a, b). size b)") (auto dest: size_child)

definition customMergePropTypes ::
  "PropTypes option list \<Rightarrow> PropTypes option list \<Rightarrow> PropTypes option list" where
  "customMergePropTypes target source = foldl (merge_record merge_fields) target source"

text \<open>
  Modelled from the spec: \<^verbatim>\<open>arrayUtils.sortByKey\<close> is not among the sources.  The spec has
  the final list sorted by name, stable and ascending.  The key of a record is its name
  (strings in lexicographic order of their characters); an entry without a name sorts first.
\<close>

definition record_key :: "PropTypes option \<Rightarrow> string option option" where
  "record_key r = (case r of None \<Rightarrow> None | Some p \<Rightarrow> Some (pt_name p))"

definition sortByKey :: "PropTypes option list \<Rightarrow> PropTypes option list" where
  "sortByKey propTypes = sort_key record_key propTypes"

text \<open>
  \<^verbatim>\<open>findPropTypes\<close>: the results of the three strategies, in the order usage, defaults,
  explicit declaration, are folded with the merge function from the empty list, and the
  outcome is sorted.  The merge function and the sort are parameters.
\<close>

definition findPropTypes ::
  "(PropTypes option list \<Rightarrow> PropTypes option list \<Rightarrow> PropTypes option list)
     \<Rightarrow> (PropTypes option list \<Rightarrow> PropTypes option list)
     \<Rightarrow> PropTypes option list \<Rightarrow> PropTypes option list \<Rightarrow> PropTypes option list
     \<Rightarrow> PropTypes option list" where
  "findPropTypes merge sort_records byPropsIdentity inDefaultPropsNode inPropTypeNode =
     sort_records (foldl merge [] [byPropsIdentity, inDefaultPropsNode, inPropTypeNode])"

text \<open>The records of a list that bear a given name, in their order.\<close>

definition records_named :: "string option \<Rightarrow> PropTypes option list \<Rightarrow> PropTypes list" where
  "records_named n propTypes = map the (filter (\<lambda>r. record_key r = Some n) propTypes)"





declare merge_fields.simps [simp del]

declare findAndCompletePropTypes.simps [simp del]

text \<open>
  Modelled from the spec: \<^verbatim>\<open>propTypesHelper.getPropTypeByMemberExpression\<close> is not among
  the sources.  The spec has every member access rooted at an identity,
  \<^verbatim>\<open>identity.someProp\<close>, contribute a record for \<^verbatim>\<open>someProp\<close>: for a member expression
  whose object is an identifier among \<open>ids\<close>, the answer is that identifier and a fresh
  record named after the property; otherwise it is empty.
\<close>

definition getPropTypeByMemberExpression ::
  "string list \<Rightarrow> node option \<times> node \<Rightarrow> string option \<times> PropTypes option" where
  "getPropTypeByMemberExpression ids path =
     (case (field (snd path) ''object'', field (snd path) ''property'') of
        (Some object, Some property) \<Rightarrow>
          (if ntype object = ''Identifier'' \<and>
              (case nname object of None \<Rightarrow> False | Some root \<Rightarrow> root \<in> set ids)
           then (nname object, Some (new_PropTypes (nname property)))
           else (None, None))
      | _ \<Rightarrow> (None, None))"


subsection \<open>The pass as a fold of events\<close>

text \<open>
  What a node of the walk means to the pass, whatever the records are: a call of an
  identifier, a member read on an identifier (with the name of the property), a node on
  which the visitor throws, or nothing.  With the helper and the merge above, and fuel for
  the nested call, the pass is the fold of \<open>apply_event\<close> over the events of the walk.
\<close>

datatype event = CallOf string | MemberOf string "string option" | Throws | Other


text \<open>Merging the fresh record of a property into a children list.\<close>

definition touch :: "string option \<Rightarrow> PropTypes option list \<Rightarrow> PropTypes option list" where
  "touch n children = customMergePropTypes children [Some (new_PropTypes n)]"

definition member_update :: "string option \<Rightarrow> PropTypes \<Rightarrow> PropTypes" where
  "member_update n item =
     set_childTypes (touch n (pt_childTypes item)) (set_type (Some ''shape'') item)"

text \<open>One event on the list of records, and the events of a walk in turn.\<close>

definition apply_event :: "string list \<Rightarrow> event \<Rightarrow> PropTypes list \<Rightarrow> PropTypes list" where
  "apply_event ids ev rs =
     (case ev of
        CallOf i \<Rightarrow>
          if i \<in> set ids
          then update_first (\<lambda>item. pt_id item = Some i) (set_type (Some ''func'')) rs
          else rs
      | MemberOf i n \<Rightarrow>
          if i \<in> set ids \<and> i \<noteq> []
          then update_first (\<lambda>item. pt_id item = Some i) (member_update n) rs
          else rs
      | _ \<Rightarrow> rs)"

definition run :: "string list \<Rightarrow> event list \<Rightarrow> PropTypes list \<Rightarrow> PropTypes list" where
  "run ids evs rs = foldl (\<lambda>s ev. apply_event ids ev s) rs evs"








text \<open>The fields of a record that the completion pass never assigns.\<close>

definition frame_of ::
  "PropTypes \<Rightarrow> string option \<times> bool \<times> node option \<times> string option \<times> string option" where
  "frame_of r = (pt_name r, pt_isRequired r, pt_ast r, pt_id r, pt_defaultValue r)"

section \<open>The file scan does not return on a non-empty directory\<close>

text \<open>
  Claim C10.  On a directory with at least one entry the scan never returns, whatever the
  depth allowed: the recursive call is made on the directory's own path.  It returns only
  on a plain file (the path itself when it ends in .js, .jsx, .ts or .tsx, nothing otherwise)
  and on an empty directory.
\<close>

theorem getProjectJavascriptFiles_diverges:
  "(fs p = Some (Directory (e # es)) \<longrightarrow> (\<forall>fuel. getProjectJavascriptFiles fuel fs p = None)) \<and>
   (fs p = Some File \<longrightarrow>
      getProjectJavascriptFiles (Suc fuel) fs p = Some (Inr (if is_javascript_path p then [p] else []))) \<and>
   (fs p = Some (Directory []) \<longrightarrow> getProjectJavascriptFiles (Suc fuel) fs p = Some (Inr []))"
proof (intro conjI impI allI)
  fix n
  assume dir: "fs p = Some (Directory (e # es))"
  show "getProjectJavascriptFiles n fs p = None"
  proof (induction n)
    case 0
    show ?case by simp
  next
    case (Suc n)
    then show ?case using dir by simp
  qed
qed simp_all

theorem getProjectJavascriptFiles_diverges_witness:
  "demo_fs ''/app'' = Some (Directory [''a.js'']) \<and>
   getProjectJavascriptFiles 50 demo_fs ''/app'' = None \<and>
   demo_fs ''/app/a.js'' = Some File \<and>
   getProjectJavascriptFiles (Suc 0) demo_fs ''/app/a.js'' = Some (Inr [''/app/a.js'']) \<and>
   demo_fs ''/empty'' = Some (Directory []) \<and>
   getProjectJavascriptFiles (Suc 0) demo_fs ''/empty'' = Some (Inr [])"
  using getProjectJavascriptFiles_diverges [of demo_fs "''/app''" "''a.js''" "[]" 0]
    getProjectJavascriptFiles_diverges [of demo_fs "''/app/a.js''" "''x''" "[]" 0]
    getProjectJavascriptFiles_diverges [of demo_fs "''/empty''" "''x''" "[]" 0]
  by (simp add: demo_fs_def is_javascript_path_def ends_with_def)

section \<open>The component locator returns the last match of the walk\<close>

lemma visit_component_ok:
  "\<not> visitor_throws pn \<Longrightarrow>
   visit_component name pn st = Inr (if is_component name pn then Some (snd pn) else st)"
  by (auto simp: visit_component_def visitor_throws_def is_component_def has_identifier_def
        visitClassDeclaration_def visitFunctionDeclaration_def visitArrowFunctionExpression_def
      split: option.splits)

lemma visit_all_ok:
  "\<forall>pn \<in> set xs. \<not> visitor_throws pn \<Longrightarrow>
   visit_all name xs st =
     Inr (if filter (is_component name) xs = [] then st
          else Some (snd (last (filter (is_component name) xs))))"
proof (induction xs arbitrary: st)
  case Nil
  show ?case by simp
next
  case (Cons pn xs)
  then show ?case by (simp add: visit_component_ok)
qed

lemma preorder_shadowed_program:
  "preorder None shadowed_program =
     [(None, shadowed_program),
      (Some shadowed_program, outer_Foo),
      (Some outer_Foo, Node ''Identifier'' (Some ''Foo'') (9, 12) []),
      (Some outer_Foo, Node ''Identifier'' (Some ''props'') (13, 18) []),
      (Some outer_Foo, Node ''BlockStatement'' None (20, 41) [(''body'', inner_Foo)]),
      (Some (Node ''BlockStatement'' None (20, 41) [(''body'', inner_Foo)]), inner_Foo),
      (Some inner_Foo, Node ''Identifier'' (Some ''Foo'') (31, 34) []),
      (Some inner_Foo, Node ''BlockStatement'' None (37, 39) [])]"
  by (simp add: shadowed_program_def outer_Foo_def inner_Foo_def)

lemma candidates_shadowed_program: "candidates shadowed_program ''Foo'' = [outer_Foo, inner_Foo]"
  unfolding candidates_def preorder_shadowed_program
  by (simp add: is_component_def has_identifier_def field_def shadowed_program_def
      outer_Foo_def inner_Foo_def)

text \<open>
  Claim C2, as the code has it.  When no visitor method throws (every class declaration of
  the tree has an \<^verbatim>\<open>id\<close>, and the root is not an arrow function), the locator fails with
  \<open>ComponentNotFound\<close> if the walk meets no class declaration of that name, no function
  declaration whose identifier has that name and no arrow function that is a child of a
  variable declarator whose identifier has that name; otherwise it returns the last such
  node of the pre-order walk.
\<close>

theorem findComponentNode_last_match:
  "\<forall>pn \<in> set (preorder None ast). \<not> visitor_throws pn \<Longrightarrow>
   findComponentNode ast name =
     (if candidates ast name = [] then Inl ComponentNotFound
      else Inr (last (candidates ast name)))"
  by (simp add: findComponentNode_def candidates_def visit_all_ok last_map)

theorem findComponentNode_last_match_witness:
  "findComponentNode shadowed_program ''Foo'' = Inr inner_Foo \<and>
   findComponentNode shadowed_program ''Bar'' = Inl ComponentNotFound"
proof -
  have ok: "\<forall>pn \<in> set (preorder None shadowed_program). \<not> visitor_throws pn"
    unfolding preorder_shadowed_program
    by (simp add: visitor_throws_def shadowed_program_def outer_Foo_def inner_Foo_def field_def)
  have none: "candidates shadowed_program ''Bar'' = []"
    unfolding candidates_def preorder_shadowed_program
    by (simp add: is_component_def has_identifier_def field_def shadowed_program_def
        outer_Foo_def inner_Foo_def)
  show ?thesis
    using findComponentNode_last_match [OF ok, of "''Foo''"]
      findComponentNode_last_match [OF ok, of "''Bar''"]
    by (simp add: candidates_shadowed_program none)
qed

text \<open>
  The claim as written has the first pre-order match returned.  On
  \<^verbatim>\<open>function Foo(props) { function Foo() {} }\<close> the walk meets the outer declaration
  first and the inner one second, and the locator returns the inner one.
\<close>

theorem findComponentNode_not_first_match:
  "candidates shadowed_program ''Foo'' = [outer_Foo, inner_Foo] \<and>
   outer_Foo \<noteq> inner_Foo \<and>
   findComponentNode shadowed_program ''Foo'' \<noteq> Inr (hd (candidates shadowed_program ''Foo'')) \<and>
   findComponentNode shadowed_program ''Foo'' = Inr inner_Foo"
proof -
  have run: "findComponentNode shadowed_program ''Foo'' = Inr inner_Foo"
    unfolding findComponentNode_def preorder_shadowed_program
    by (simp add: visit_component_def visitFunctionDeclaration_def field_def
        shadowed_program_def outer_Foo_def inner_Foo_def)
  have diff: "outer_Foo \<noteq> inner_Foo"
    by (simp add: outer_Foo_def inner_Foo_def)
  show ?thesis
    using run diff by (simp add: candidates_shadowed_program)
qed

section \<open>Where the rendered declaration is written\<close>

text \<open>
  Claim C6, as the code has it.  With at least one merged record: an existing declaration
  node has exactly its range replaced by the rendered text.  Without one, a function
  declaration or arrow function gets the text (after two line breaks) at the end of its own
  range; a component of any other type gets it there too unless the configured code style
  is \<^verbatim>\<open>class\<close>, and only then is it written (indented, on a line of its own) one
  character after the start of the component's body.
\<close>

theorem generatePropTypes_write_position:
  assumes "propTypes \<noteq> []"
  shows
   "(propTypesNode = Some p \<longrightarrow>
       generatePropTypes_write build document c propTypesNode codeStyle propTypes =
         Inr (Some (take (fst (range p)) document @
                    build propTypes (effective_codeStyle c (Some p) codeStyle) @
                    drop (snd (range p)) document))) \<and>
    (propTypesNode = None \<and>
       (ntype c = ''FunctionDeclaration'' \<or> ntype c = ''ArrowFunctionExpression'' \<or>
        codeStyle \<noteq> Some ''class'') \<longrightarrow>
       generatePropTypes_write build document c propTypesNode codeStyle propTypes =
         Inr (Some (take (snd (range c)) document @
                    [CHR 0x0A, CHR 0x0A] @ build propTypes (effective_codeStyle c None codeStyle) @
                    drop (snd (range c)) document))) \<and>
    (propTypesNode = None \<and> ntype c \<noteq> ''FunctionDeclaration'' \<and>
       ntype c \<noteq> ''ArrowFunctionExpression'' \<and> codeStyle = Some ''class'' \<and>
       field c ''body'' = Some body \<longrightarrow>
       generatePropTypes_write build document c propTypesNode codeStyle propTypes =
         Inr (Some (take (fst (range body) + 1) document @
                    [CHR 0x0A] @ ''  '' @ build propTypes (Some ''class'') @ [CHR 0x0A] @
                    drop (fst (range body) + 1) document)))"
  using assms
  by (auto simp: generatePropTypes_write_def effective_codeStyle_def replaceCode_def
      insertCode_def Let_def)

theorem generatePropTypes_write_position_witness:
  "generatePropTypes_write render_P class_A_document class_A
       (Some (Node ''AssignmentExpression'' None (6, 7) [])) None [Some (new_PropTypes (Some ''x''))] =
     Inr (Some ''class P extends C {}'') \<and>
   generatePropTypes_write render_P class_A_document
       (Node ''FunctionDeclaration'' None (0, 5) []) None (Some ''class'')
       [Some (new_PropTypes (Some ''x''))] =
     Inr (Some (''class'' @ [CHR 0x0A, CHR 0x0A] @ ''P A extends C {}'')) \<and>
   generatePropTypes_write render_P class_A_document class_A None (Some ''class'')
       [Some (new_PropTypes (Some ''x''))] =
     Inr (Some (''class A extends C {'' @ [CHR 0x0A] @ ''  P'' @ [CHR 0x0A] @ ''}''))"
proof -
  have ne: "[Some (new_PropTypes (Some ''x''))] \<noteq> []"
    by simp
  have body: "field class_A ''body'' = Some (Node ''ClassBody'' None (18, 20) [])"
    by (simp add: field_def class_A_def)
  show ?thesis
    using
      generatePropTypes_write_position [OF ne, of "Some (Node ''AssignmentExpression'' None (6, 7) [])"
        "Node ''AssignmentExpression'' None (6, 7) []" render_P class_A_document class_A None]
      generatePropTypes_write_position [OF ne, of None undefined render_P class_A_document
        "Node ''FunctionDeclaration'' None (0, 5) []" "Some ''class''"]
      generatePropTypes_write_position [OF ne, of None undefined render_P class_A_document
        class_A "Some ''class''" "Node ''ClassBody'' None (18, 20) []"]
      body
    by (simp add: render_P_def class_A_document_def class_A_def)
qed

text \<open>
  The claim as written puts the text inside the class body for every class component.  With
  no code style configured, the class \<^verbatim>\<open>class A extends C {}\<close> gets the text after its
  closing brace.
\<close>

theorem generatePropTypes_write_class_default_style:
  "generatePropTypes_write render_P class_A_document class_A None None
       [Some (new_PropTypes (Some ''x''))] =
     Inr (Some (''class A extends C {}'' @ [CHR 0x0A, CHR 0x0A] @ ''P'')) \<and>
   generatePropTypes_write render_P class_A_document class_A None None
       [Some (new_PropTypes (Some ''x''))] \<noteq>
     Inr (Some (''class A extends C {'' @ [CHR 0x0A] @ ''  P'' @ [CHR 0x0A] @ ''}''))"
  by (simp add: generatePropTypes_write_def effective_codeStyle_def insertCode_def
      class_A_def class_A_document_def render_P_def)


section \<open>Unclassifiable entries of an existing declaration\<close>

lemmas interpreter_fixtures =
  identifier_node_def literal_node_def member_node_def call_node_def array_expression_def object_expression_def property_node_def

text \<open>
  Claim C3.  The interpreter of an object literal keeps the \<^verbatim>\<open>null\<close> it gets for an entry
  whose value is neither a call nor a member expression: on
  \<^verbatim>\<open>{ a: PropTypes.string, b: check, c: PropTypes.oneOfType([PropTypes.number, 5]) }\<close>
  the list returned has \<^verbatim>\<open>null\<close> in second place.  Only the elements of an array argument
  are filtered: the literal \<^verbatim>\<open>5\<close> leaves no trace among the children of \<^verbatim>\<open>c\<close>.
\<close>

theorem findPropTypesInObjectNode_keeps_null:
  "findPropTypesInObjectNode (Some validator_declaration) =
     Inr [Some (PropTypes (Some ''a'') (Some ''string'') False [] None None None),
          None,
          Some (PropTypes (Some ''c'') (Some ''oneOfType'') False
                  [Some (PropTypes None (Some ''number'') False [] None None None)]
                  None None None)]"
  by (simp add: validator_declaration_def interpreter_fixtures field_list_def field_def
      classify_typeNode_def callee_type_def first_argument_def new_PropTypes_def
      set_type_def set_childTypes_def)

section \<open>Defaults of a destructuring pattern\<close>

text \<open>
  Claim C7, as the code has it.  Whatever the inference helper and the printer are: for
  every entry \<^verbatim>\<open>key = expr\<close> of a destructuring pattern (the value is an
  \<^verbatim>\<open>AssignmentPattern\<close> whose left side is an identifier), the list returned holds the
  record that the helper makes of a fresh record named after the key, bound to the left
  identifier, and carrying the printed right-hand side as default value exactly when the
  inferred kind is not \<^verbatim>\<open>any\<close>; when the kind stays \<^verbatim>\<open>any\<close> the default value is the
  helper's, which for a helper that leaves it alone is none.
\<close>

theorem findPropTypesInObjectPattern_default:
  assumes "entry \<in> set (field_list ast ''properties'')"
    and "field entry ''key'' = Some key"
    and "field entry ''value'' = Some v"
    and "ntype v = ''AssignmentPattern''"
    and "field v ''left'' = Some left"
    and "ntype left = ''Identifier''"
    and "field v ''right'' = Some right"
    and "inferred = upd right (new_PropTypes (nname key))"
  shows "(if pt_type inferred \<noteq> Some ''any''
          then PropTypes (pt_name inferred) (pt_type inferred) (pt_isRequired inferred)
                 (pt_childTypes inferred) (pt_ast inferred) (nname left) (Some (printer right))
          else PropTypes (pt_name inferred) (pt_type inferred) (pt_isRequired inferred)
                 (pt_childTypes inferred) (pt_ast inferred) (nname left) (pt_defaultValue inferred))
         \<in> set (findPropTypesInObjectPattern upd printer ast)"
proof -
  let ?r = "set_id (nname left)
              (if pt_type inferred \<noteq> Some ''any''
               then set_defaultValue (Some (printer right)) inferred else inferred)"
  have "pattern_entry upd printer entry = Some ?r"
    using assms by (simp add: pattern_entry_def Let_def)
  then have "?r \<in> set (findPropTypesInObjectPattern upd printer ast)"
    using assms(1) by (force simp: findPropTypesInObjectPattern_def List.map_filter_def)
  then show ?thesis
    by (simp add: set_id_def set_defaultValue_def split: if_splits)
qed

theorem findPropTypesInObjectPattern_default_witness:
  "PropTypes (Some ''b'') (Some ''number'') False [] None (Some ''b'') (Some ''1'')
     \<in> set (findPropTypesInObjectPattern updatePropTypeByNode (source_of Foo_document) Foo_pattern)"
proof -
  have "pattern_b \<in> set (field_list Foo_pattern ''properties'')"
    by (simp add: field_list_def Foo_pattern_def)
  from findPropTypesInObjectPattern_default [OF this, of
      "Node ''Identifier'' (Some ''b'') (18, 19) []"
      "Node ''AssignmentPattern'' None (18, 23)
         [(''left'', Node ''Identifier'' (Some ''b'') (18, 19) []),
          (''right'', Node ''NumericLiteral'' None (22, 23) [])]"
      "Node ''Identifier'' (Some ''b'') (18, 19) []"
      "Node ''NumericLiteral'' None (22, 23) []"
      "updatePropTypeByNode (Node ''NumericLiteral'' None (22, 23) []) (new_PropTypes (Some ''b''))"
      updatePropTypeByNode "source_of Foo_document"]
  show ?thesis
    by (simp add: pattern_b_def field_def updatePropTypeByNode_def new_PropTypes_def
        set_type_def source_of_def Foo_document_def)
qed

text \<open>
  The claim as written gives every entry \<^verbatim>\<open>key = expr\<close> the printed right-hand side as
  default value.  In \<^verbatim>\<open>function Foo({ a, b = 1, c = d }) {}\<close> the default of \<^verbatim>\<open>c\<close> is a
  variable, its kind stays \<^verbatim>\<open>any\<close>, and the record of \<^verbatim>\<open>c\<close> has no default value.
\<close>

theorem findPropTypesInObjectPattern_any_has_no_default:
  "findPropTypesInObjectPattern updatePropTypeByNode (source_of Foo_document) Foo_pattern =
     [PropTypes (Some ''a'') (Some ''any'') False [] None (Some ''a'') None,
      PropTypes (Some ''b'') (Some ''number'') False [] None (Some ''b'') (Some ''1''),
      PropTypes (Some ''c'') (Some ''any'') False [] None (Some ''c'') None] \<and>
   source_of Foo_document (Node ''Identifier'' (Some ''d'') (29, 30) []) = ''d''"
  by (simp add: findPropTypesInObjectPattern_def List.map_filter_def pattern_entry_def
      Foo_pattern_def pattern_a_def pattern_b_def pattern_c_def field_list_def field_def
      updatePropTypeByNode_def new_PropTypes_def set_type_def set_id_def set_defaultValue_def
      source_of_def Foo_document_def)


section \<open>The completion pass changes a record that was no candidate\<close>

text \<open>
  What the pass leaves alone, for every helper and merge function: the name, the
  \<^verbatim>\<open>isRequired\<close> flag, the literal set, the binding identifier and the default value of
  every record; and every record, when none is a candidate.
\<close>

lemma frame_of_update:
  "frame_of (set_type t r) = frame_of r" "frame_of (set_childTypes c r) = frame_of r"
  by (simp_all add: frame_of_def set_type_def set_childTypes_def)

lemma frame_update_first:
  "(\<And>x. frame_of (f x) = frame_of x) \<Longrightarrow> map frame_of (update_first P f xs) = map frame_of xs"
  by (induction xs) simp_all

lemma frame_complete_node:
  "complete_node helper merge nested ids path rs = Some (Inr rs') \<Longrightarrow>
   map frame_of rs' = map frame_of rs"
  by (auto simp: complete_node_def frame_update_first frame_of_update
      split: if_splits option.splits sum.splits prod.splits)

lemma frame_complete_walk:
  "complete_walk (complete_node helper merge nested ids) paths rs = Some (Inr rs') \<Longrightarrow>
   map frame_of rs' = map frame_of rs"
proof (induction paths arbitrary: rs)
  case Nil
  then show ?case by simp
next
  case (Cons path paths)
  then show ?case
    by (auto split: option.splits sum.splits dest!: frame_complete_node)
qed

lemma findAndCompletePropTypes_frame:
  "findAndCompletePropTypes helper merge fuel ast propTypes = Some (Inr completed) \<Longrightarrow>
   map frame_of completed = map frame_of propTypes \<and>
   (completion_ids propTypes = [] \<longrightarrow> completed = propTypes)"
  by (cases fuel)
    (auto simp: findAndCompletePropTypes.simps Let_def
      split: if_splits option.splits dest: frame_complete_walk)

text \<open>
  Claim C9.  The pass looks a record up by its binding identifier alone.  In
  \<^verbatim>\<open>{ var { x: a = '', y: a } = props; a(); }\<close> the pattern gives two records bound to
  \<^verbatim>\<open>a\<close>; the record of \<^verbatim>\<open>y\<close> (kind \<^verbatim>\<open>any\<close>) makes
  \<^verbatim>\<open>a\<close> an identifier to look for, and the call \<^verbatim>\<open>a()\<close> then turns the first record
  bound to \<^verbatim>\<open>a\<close> into a \<^verbatim>\<open>func\<close>: the record of \<^verbatim>\<open>x\<close>, whose kind on entry was
  \<^verbatim>\<open>string\<close>.  This holds for every helper and every merge function, neither being
  called.
\<close>

theorem findAndCompletePropTypes_changes_non_candidate:
  "findPropTypesInObjectPattern updatePropTypeByNode (source_of duplicate_binding_document)
       duplicate_binding_pattern = [record_x, record_y] \<and>
   pt_type record_x = Some ''string'' \<and>
   findAndCompletePropTypes helper merge (Suc fuel) (Some call_a_block) [record_x, record_y] =
     Some (Inr [PropTypes (Some ''x'') (Some ''func'') False [] None (Some ''a'')
                  (Some [CHR 0x27, CHR 0x27]),
                record_y])"
proof -
  have records:
    "findPropTypesInObjectPattern updatePropTypeByNode (source_of duplicate_binding_document)
       duplicate_binding_pattern = [record_x, record_y]"
    by (simp add: findPropTypesInObjectPattern_def List.map_filter_def pattern_entry_def
        duplicate_binding_pattern_def field_list_def field_def updatePropTypeByNode_def
        new_PropTypes_def set_type_def set_id_def set_defaultValue_def source_of_def
        duplicate_binding_document_def record_x_def record_y_def)
  have walk:
    "map (\<lambda>path. (ntype (snd path), map_option nname (field (snd path) ''callee'')))
       (filter (\<lambda>path. ntype (snd path) = ''CallExpression'' \<or>
                         ntype (snd path) = ''MemberExpression'')
          (preorder None call_a_block)) =
     [(''CallExpression'', Some (Some ''a''))]"
    by (simp add: call_a_block_def duplicate_binding_pattern_def field_def)
  have pass:
    "findAndCompletePropTypes helper merge (Suc fuel) (Some call_a_block) [record_x, record_y] =
     Some (Inr [PropTypes (Some ''x'') (Some ''func'') False [] None (Some ''a'')
                  (Some [CHR 0x27, CHR 0x27]),
                record_y])"
    by (simp add: findAndCompletePropTypes.simps completion_ids_def truthy_def record_x_def
        record_y_def call_a_block_def duplicate_binding_pattern_def complete_node_def field_def
        set_type_def)
  show ?thesis
    using records pass by (simp add: record_x_def)
qed


section \<open>An empty merged list is an error\<close>

text \<open>
  Claim C4.  Whatever the merge function and the sort are, the caller of \<^verbatim>\<open>findPropTypes\<close>
  fails with \<open>NoPropertiesFound\<close> exactly when the merged list is empty, before anything
  is rendered or written; and when the three strategies yield no record at all, the merged
  list (with the merge and the sort modelled from the spec) is empty, so the operation
  fails.
\<close>

theorem generatePropTypes_no_properties:
  "(generatePropTypes_write build document c propTypesNode codeStyle
       (findPropTypes merge sort_records usage defaults explicit) = Inl NoPropertiesFound
     \<longleftrightarrow> findPropTypes merge sort_records usage defaults explicit = []) \<and>
   (usage = [] \<and> defaults = [] \<and> explicit = [] \<longrightarrow>
      generatePropTypes_write build document c propTypesNode codeStyle
        (findPropTypes customMergePropTypes sortByKey usage defaults explicit) =
      Inl NoPropertiesFound)"
proof -
  have empty: "findPropTypes customMergePropTypes sortByKey [] [] [] = []"
    by (simp add: findPropTypes_def customMergePropTypes_def sortByKey_def)
  have "generatePropTypes_write build document c propTypesNode codeStyle ps = Inl NoPropertiesFound
          \<longleftrightarrow> ps = []" for ps
    by (auto simp: generatePropTypes_write_def Let_def split: option.splits)
  then show ?thesis
    using empty by simp
qed

theorem generatePropTypes_no_properties_witness:
  "generatePropTypes_write render_P class_A_document class_A None None
     (findPropTypes customMergePropTypes sortByKey [] [] []) = Inl NoPropertiesFound"
  using generatePropTypes_no_properties [of render_P class_A_document class_A None None
      customMergePropTypes sortByKey "[]" "[]" "[]"]
  by simp


section \<open>Priority of the three sources\<close>




lemma records_named_append:
  "records_named n (xs @ ys) = records_named n xs @ records_named n ys"
  by (simp add: records_named_def)















section \<open>The merged list is sorted, whatever the order inside each source\<close>













section \<open>The completion pass is idempotent\<close>









































end
